theory Spec2Isabelle
  imports Main
begin

section \<open>Python values and exceptions\<close>

text \<open>
  The decoder of \<^verbatim>\<open>pypsd/sections.py\<close> handles three kinds of Python values in the
  fields it validates: \<^verbatim>\<open>None\<close> (the default of every optional argument), integers
  (unbounded) and byte strings. A file is a Python 2 byte string, so a string is a
  list of 8-bit characters.
\<close>

datatype pyval = PyNone | PyInt int | PyStr string

text \<open>Truthiness, as \<^verbatim>\<open>if x:\<close> tests it.\<close>

fun truthy :: "pyval \<Rightarrow> bool" where
  "truthy PyNone = False"
| "truthy (PyInt i) = (i \<noteq> 0)"
| "truthy (PyStr s) = (s \<noteq> [])"

text \<open>
  The exceptions the module can raise. \<open>BaseException\<close> carries the message that
  \<^verbatim>\<open>validate\<close> formats; \<open>KeyError\<close> is a failed dictionary lookup with its key;
  \<open>AssertionError\<close> a failed \<^verbatim>\<open>assert\<close>; \<open>TypeError\<close> the constructor check of
  \<^verbatim>\<open>PSDHeader\<close> and a \<^verbatim>\<open>%d\<close> conversion of a value that is no number;
  \<open>IndexError\<close> an index into an empty sequence; \<open>Truncation requested available\<close>
  the reader's error at the end of the source.
\<close>

datatype error =
    BaseException string
  | AssertionError
  | KeyError pyval
  | TypeError string
  | IndexError
  | Truncation nat nat

text \<open>
  A statement that raises ends the function: \<open>and_then m k\<close> runs \<open>k\<close> on the
  result of \<open>m\<close> unless \<open>m\<close> raised.
\<close>

definition and_then :: "error + 'a \<Rightarrow> ('a \<Rightarrow> error + 'b) \<Rightarrow> error + 'b" where
  "and_then m k = (case m of Inl e \<Rightarrow> Inl e | Inr x \<Rightarrow> k x)"

subsection \<open>Formatting\<close>

text \<open>
  The decimal digits of an integer, as \<^verbatim>\<open>str\<close> prints them; \<open>show_digits\<close> is
  used on numbers that are not negative.
\<close>

function show_digits :: "int \<Rightarrow> string" where
  "show_digits n =
     (if n < 10 then [''0123456789'' ! nat n]
      else show_digits (n div 10) @ [''0123456789'' ! nat (n mod 10)])"
  by pat_completeness auto
termination
  by (relation "measure nat") (auto intro: int_div_less_self simp: zdiv_int)

declare show_digits.simps [simp del]

definition show_int :: "int \<Rightarrow> string" where
  "show_int i = (if i < 0 then CHR ''-'' # show_digits (- i) else show_digits i)"

text \<open>
  \<^verbatim>\<open>"%s" % v\<close> is \<^verbatim>\<open>str(v)\<close>; inside a list Python prints \<^verbatim>\<open>repr\<close> of the elements
  (a string in quotes; the escapes of \<^verbatim>\<open>repr\<close> are not modelled, no table of the module
  holds a string that needs one).
\<close>

fun str_of :: "pyval \<Rightarrow> string" where
  "str_of PyNone = ''None''"
| "str_of (PyInt i) = show_int i"
| "str_of (PyStr s) = s"

fun repr_of :: "pyval \<Rightarrow> string" where
  "repr_of (PyStr s) = [CHR 0x27] @ s @ [CHR 0x27]"
| "repr_of v = str_of v"

fun join_comma :: "string list \<Rightarrow> string" where
  "join_comma [] = []"
| "join_comma [s] = s"
| "join_comma (s # t # ts) = s @ '', '' @ join_comma (t # ts)"

definition str_of_list :: "pyval list \<Rightarrow> string" where
  "str_of_list vs = ''['' @ join_comma (map repr_of vs) @ '']''"

text \<open>\<^verbatim>\<open>"%d" % v\<close> raises \<^verbatim>\<open>TypeError\<close> unless \<open>v\<close> is a number.\<close>

definition fmt_d :: "pyval \<Rightarrow> error + string" where
  "fmt_d v = (case v of PyInt i \<Rightarrow> Inr (show_int i)
              | _ \<Rightarrow> Inl (TypeError ''%d format: a number is required''))"

section \<open>The validation utility\<close>

text \<open>
  \<^verbatim>\<open>def validate(label, value, range=None, mustBe=None, list=None)\<close>.
  An absent keyword argument is \<open>None\<close> (for a sequence) or \<open>PyNone\<close>. The two
  \<^verbatim>\<open>assert\<close> lines of the source are written \<^verbatim>\<open>assert label not None\<close>; they are
  modelled as the \<^verbatim>\<open>is not None\<close> tests they stand for. The three constraints are
  tried in the source's order, each guarded by the truthiness of its argument: a
  sequence is truthy when it is present and not empty.
\<close>

definition validate ::
  "pyval \<Rightarrow> pyval \<Rightarrow> pyval list option \<Rightarrow> pyval \<Rightarrow> pyval list option \<Rightarrow> error + unit" where
  "validate label val range_arg mustBe list_arg =
     (if label = PyNone then Inl AssertionError
      else if val = PyNone \<and> range_arg = None \<and> list_arg = None then Inl AssertionError
      else if truthy mustBe then
        (if val \<noteq> mustBe then
           Inl (BaseException
                  (str_of label @ '' should be '' @ str_of mustBe @ '' but was '' @ str_of val))
         else Inr ())
      else if range_arg \<noteq> None \<and> range_arg \<noteq> Some [] then
        (if val \<in> set (the range_arg) then Inr ()
         else
           and_then (fmt_d (hd (the range_arg))) (\<lambda>lo.
           and_then (fmt_d (last (the range_arg))) (\<lambda>hi.
           Inl (BaseException
                  (str_of label @ '' must be between '' @ lo @ '' and '' @ hi
                   @ '', but was '' @ str_of val)))))
      else if list_arg \<noteq> None \<and> list_arg \<noteq> Some [] then
        (if val \<in> set (the list_arg) then Inr ()
         else
           Inl (BaseException
                  (str_of label @ '' must be one of '' @ str_of_list (the list_arg)
                   @ '', but was '' @ str_of val)))
      else Inr ())"

section \<open>The byte cursor\<close>

text \<open>
  The sections inherit their readers and constants from the parser base class
  \<^verbatim>\<open>PSDParserBase\<close> of \<^verbatim>\<open>pypsd/sectionbase.py\<close>. These are modelled from the
  specification (section 4.1 and section 6) and from the docstrings of
  \<^verbatim>\<open>sections.py\<close>.

  The opened file is read strictly forwards, so it is modelled by the bytes not yet
  read and the absolute position: \<open>tell\<close> is \<^verbatim>\<open>f.tell()\<close>, and the size of the
  source is \<open>tell f + length (unread f)\<close>.
\<close>

record fileObj =
  unread :: string
  tell :: nat

definition getsize :: "fileObj \<Rightarrow> nat" where
  "getsize f = tell f + length (unread f)"

text \<open>
  Modelled from the spec: the exact read of the cursor. Reading past the end of the
  source fails with a truncation error that names the requested size and the bytes
  available.
\<close>

definition read_exact :: "nat \<Rightarrow> fileObj \<Rightarrow> error + (string \<times> fileObj)" where
  "read_exact n f =
     (if n \<le> length (unread f)
      then Inr (take n (unread f), \<lparr>unread = drop n (unread f), tell = tell f + n\<rparr>)
      else Inl (Truncation n (length (unread f))))"

text \<open>The big-endian value of a byte string, and its two's-complement reading.\<close>

definition be_uint :: "string \<Rightarrow> int" where
  "be_uint bs = foldl (\<lambda>acc ch. acc * 256 + of_char ch) 0 bs"

definition to_signed :: "int \<Rightarrow> int \<Rightarrow> int" where
  "to_signed modulus v = (if modulus \<le> 2 * v then v - modulus else v)"

text \<open>Modelled from the spec: \<^verbatim>\<open>readString\<close>, read exactly N bytes as text.\<close>

definition readString :: "nat \<Rightarrow> fileObj \<Rightarrow> error + (string \<times> fileObj)" where
  "readString n f = read_exact n f"

text \<open>
  Modelled from the spec: \<^verbatim>\<open>readShortInt\<close>, a big-endian 16-bit read. The sections
  compare its result with zero (\<^verbatim>\<open>if self.layersCount < 0\<close>) and document the
  channel ids -1 and -2, and the specification has the layer count and the channel
  id read as signed 16-bit values: the value is the two's-complement one.
\<close>

definition readShortInt :: "fileObj \<Rightarrow> error + (int \<times> fileObj)" where
  "readShortInt f = and_then (read_exact 2 f) (\<lambda>(bs, f'). Inr (to_signed 65536 (be_uint bs), f'))"

text \<open>Modelled from the spec: \<^verbatim>\<open>readInt\<close>, a big-endian unsigned 32-bit read.\<close>

definition readInt :: "fileObj \<Rightarrow> error + (int \<times> fileObj)" where
  "readInt f = and_then (read_exact 4 f) (\<lambda>(bs, f'). Inr (be_uint bs, f'))"

text \<open>Modelled from the spec: \<^verbatim>\<open>readTinyInt\<close>, an unsigned 8-bit read.\<close>

definition readTinyInt :: "fileObj \<Rightarrow> error + (int \<times> fileObj)" where
  "readTinyInt f = and_then (read_exact 1 f) (\<lambda>(bs, f'). Inr (be_uint bs, f'))"

text \<open>
  Modelled from the spec: \<^verbatim>\<open>getRectangle\<close>, four big-endian signed 32-bit integers
  (top, left, bottom, right).
\<close>

definition getRectangle :: "fileObj \<Rightarrow> error + ((int \<times> int \<times> int \<times> int) \<times> fileObj)" where
  "getRectangle f =
     and_then (read_exact 16 f) (\<lambda>(bs, f').
       Inr ((to_signed 4294967296 (be_uint (take 4 bs)),
             to_signed 4294967296 (be_uint (take 4 (drop 4 bs))),
             to_signed 4294967296 (be_uint (take 4 (drop 8 bs))),
             to_signed 4294967296 (be_uint (take 4 (drop 12 bs)))), f'))"

text \<open>
  Modelled from the spec: \<^verbatim>\<open>readBits\<close>, read N bytes and decompose the first byte
  into its 8 individual bits, ordered most-significant-bit first (index 0 = bit 7).
  With no byte read there is no first byte to decompose.
\<close>

definition bits_of_byte :: "char \<Rightarrow> bool list" where
  "bits_of_byte ch = map (\<lambda>k. bit (of_char ch :: nat) k) [7, 6, 5, 4, 3, 2, 1, 0]"

definition readBits :: "nat \<Rightarrow> fileObj \<Rightarrow> error + (bool list \<times> fileObj)" where
  "readBits n f =
     and_then (read_exact n f) (\<lambda>(bs, f').
       (case bs of [] \<Rightarrow> Inl IndexError | b # bs' \<Rightarrow> Inr (bits_of_byte b, f')))"

text \<open>
  Modelled from the spec: \<^verbatim>\<open>skip\<close>, advance by N bytes without interpretation; a
  skip that needs more bytes than are available is a truncation.
\<close>

definition skip :: "nat \<Rightarrow> fileObj \<Rightarrow> error + fileObj" where
  "skip n f = and_then (read_exact n f) (\<lambda>(bs, f'). Inr f')"

text \<open>
  Modelled from the spec: \<^verbatim>\<open>updateLength\<close>, read the 32-bit length field of a
  section; the caller stores it as \<^verbatim>\<open>self.length\<close>.
\<close>

definition updateLength :: "fileObj \<Rightarrow> error + (int \<times> fileObj)" where
  "updateLength f = readInt f"

subsection \<open>Constants of the parser base class\<close>

text \<open>
  Modelled from the spec: the fixed constants (section 6), which the docstrings of
  \<^verbatim>\<open>PSDHeader.parse\<close> and \<^verbatim>\<open>PSDLayer.parse\<close> repeat: the signature tag
  \<^verbatim>\<open>'8BPS'\<close>, version 1, the channel range 1 to 56, the size range 1 to 30,000, the
  depths 1, 8 and 16, and the blend-mode signature \<^verbatim>\<open>'8BIM'\<close>. A range is the
  sequence of its integers, which \<^verbatim>\<open>validate\<close> tests with \<^verbatim>\<open>in\<close> and reads at
  \<^verbatim>\<open>[0]\<close> and \<^verbatim>\<open>[-1]\<close>.
\<close>

definition SIGNATURE :: string where
  "SIGNATURE = ''8BPS''"

definition VERSION :: int where
  "VERSION = 1"

definition CHANNELS_RANGE :: "pyval list" where
  "CHANNELS_RANGE = map PyInt [1..56]"

definition SIZE_RANGE :: "pyval list" where
  "SIZE_RANGE = map PyInt [1..30000]"

definition DEPTH_LIST :: "pyval list" where
  "DEPTH_LIST = [PyInt 1, PyInt 8, PyInt 16]"

definition SIGNATIRE_8BIM :: string where
  "SIGNATIRE_8BIM = ''8BIM''"

section \<open>The file header\<close>

record PSDHeader =
  signature :: string
  version :: int
  channelsNum :: int
  height :: int
  width :: int
  depth :: int
  colorMode :: "int \<times> string"

text \<open>The dictionary \<^verbatim>\<open>colorModeMap\<close> of \<^verbatim>\<open>PSDHeader.parse\<close>.\<close>

definition colorModeMap :: "int \<rightharpoonup> string" where
  "colorModeMap =
     map_of [(0, ''Bitmap''), (1, ''Grayscale''), (2, ''Indexed Color''),
             (3, ''RGB Color''), (4, ''CMYK Color''), (7, ''Multichannel''),
             (8, ''Duotone''), (9, ''Lab Color'')]"

text \<open>
  \<^verbatim>\<open>PSDHeader.parse\<close>: the fields in file order, each validated right after it is
  read. The field \<open>colorMode\<close> is the pair of the code and its label (the source
  stores a dictionary with the keys \<^verbatim>\<open>"code"\<close> and \<^verbatim>\<open>"label"\<close>).
\<close>

definition PSDHeader_parse :: "fileObj \<Rightarrow> error + (PSDHeader \<times> fileObj)" where
  "PSDHeader_parse f0 =
     and_then (readString 4 f0) (\<lambda>(sig, f1).
     and_then (validate (PyStr ''Signature'') (PyStr sig) None (PyStr SIGNATURE) None) (\<lambda>u1.
     and_then (readShortInt f1) (\<lambda>(ver, f2).
     and_then (validate (PyStr ''Version'') (PyInt ver) None (PyInt VERSION) None) (\<lambda>u2.
     and_then (skip 6 f2) (\<lambda>f3.
     and_then (readShortInt f3) (\<lambda>(chn, f4).
     and_then (validate (PyStr ''Channels number'') (PyInt chn)
                 (Some CHANNELS_RANGE) PyNone None) (\<lambda>u3.
     and_then (readInt f4) (\<lambda>(h, f5).
     and_then (validate (PyStr ''Height'') (PyInt h) (Some SIZE_RANGE) PyNone None) (\<lambda>u4.
     and_then (readInt f5) (\<lambda>(w, f6).
     and_then (validate (PyStr ''Width'') (PyInt w) (Some SIZE_RANGE) PyNone None) (\<lambda>u5.
     and_then (readShortInt f6) (\<lambda>(d, f7).
     and_then (validate (PyStr ''Depth'') (PyInt d) None PyNone (Some DEPTH_LIST)) (\<lambda>u6.
     and_then (readShortInt f7) (\<lambda>(cm, f8).
       (case colorModeMap cm of
          None \<Rightarrow> Inl (KeyError (PyInt cm))
        | Some label \<Rightarrow>
            Inr (\<lparr>signature = sig, version = ver, channelsNum = chn, height = h,
                  width = w, depth = d, colorMode = (cm, label)\<rparr>, f8))))))))))))))))"

text \<open>
  \<^verbatim>\<open>PSDHeader.__init__\<close>: a file that is not at its beginning is refused. Modelled from
  the spec: the base constructor then decodes the section (instantiating a section
  consumes its bytes from the shared cursor).
\<close>

definition PSDHeader_init :: "fileObj \<Rightarrow> error + (PSDHeader \<times> fileObj)" where
  "PSDHeader_init f =
     (if tell f \<noteq> 0
      then Inl (TypeError
        ''Argument should be file pointer and it should be at the beginning of file'')
      else PSDHeader_parse f)"

section \<open>Color mode data and image resources\<close>

record PSDColorMode =
  cm_length :: int
  cm_code :: int

text \<open>\<^verbatim>\<open>PSDColorMode.parse\<close>: the length field, the skip, and \<^verbatim>\<open>self.code = self.length\<close>.\<close>

definition PSDColorMode_parse :: "fileObj \<Rightarrow> error + (PSDColorMode \<times> fileObj)" where
  "PSDColorMode_parse f0 =
     and_then (updateLength f0) (\<lambda>(len, f1).
     and_then (skip (nat len) f1) (\<lambda>f2.
       Inr (\<lparr>cm_length = len, cm_code = len\<rparr>, f2)))"

record PSDImageResources =
  ir_length :: int

text \<open>\<^verbatim>\<open>PSDImageResources.parse\<close>: the length field and the skip.\<close>

definition PSDImageResources_parse :: "fileObj \<Rightarrow> error + (PSDImageResources \<times> fileObj)" where
  "PSDImageResources_parse f0 =
     and_then (updateLength f0) (\<lambda>(len, f1).
     and_then (skip (nat len) f1) (\<lambda>f2.
       Inr (\<lparr>ir_length = len\<rparr>, f2)))"

section \<open>Layer records\<close>

text \<open>
  A value of the dictionary \<^verbatim>\<open>self.channels\<close> is either a length or a list of
  lengths (the source tests \<^verbatim>\<open>type(...) == list\<close>).
\<close>

datatype chanval = Length int | Lengths "int list"

record PSDLayer =
  rectangle :: "int \<times> int \<times> int \<times> int"
  chanelsCount :: int
  channels :: "int \<rightharpoonup> chanval"
  blend :: "string \<times> string"
  opacity :: int
  clipping :: "int \<times> string"
  transpProtected :: bool
  visible :: bool

text \<open>The body of the channel loop: what one channel entry does to the dictionary.\<close>

definition add_channel :: "(int \<rightharpoonup> chanval) \<Rightarrow> int \<Rightarrow> int \<Rightarrow> (int \<rightharpoonup> chanval)" where
  "add_channel chs channelId channelLength =
     (case chs channelId of
        None \<Rightarrow> chs(channelId \<mapsto> Length channelLength)
      | Some (Lengths ls) \<Rightarrow> chs(channelId \<mapsto> Lengths (ls @ [channelLength]))
      | Some (Length l) \<Rightarrow> chs(channelId \<mapsto> Lengths [l]))"

text \<open>\<^verbatim>\<open>for i in range(self.chanelsCount)\<close>: a six-byte entry per channel.\<close>

fun read_channels ::
  "nat \<Rightarrow> fileObj \<Rightarrow> (int \<rightharpoonup> chanval) \<Rightarrow> error + ((int \<rightharpoonup> chanval) \<times> fileObj)" where
  "read_channels 0 f chs = Inr (chs, f)"
| "read_channels (Suc n) f chs =
     and_then (readShortInt f) (\<lambda>(channelId, f1).
     and_then (readInt f1) (\<lambda>(channelLength, f2).
       read_channels n f2 (add_channel chs channelId channelLength)))"

definition blendMap :: "string \<rightharpoonup> string" where
  "blendMap =
     map_of [(''norm'', ''normal''), (''dark'', ''darken''), (''lite'', ''lighten''),
             (''hue'', ''hue''), (''sat'', ''saturation''), (''colr'', ''color''),
             (''lum'', ''luminosity''), (''mul'', ''multiply''), (''scrn'', ''screen''),
             (''diss'', ''dissolve''), (''over'', ''overlay''), (''hLit'', ''hard light''),
             (''sLit'', ''soft light''), (''diff'', ''difference'')]"

definition clippingMap :: "int \<rightharpoonup> string" where
  "clippingMap = map_of [(0, ''base''), (1, ''non-base'')]"

text \<open>
  \<^verbatim>\<open>PSDLayer.parse\<close>. The dictionary starts empty (\<^verbatim>\<open>__init__\<close>); \<^verbatim>\<open>range\<close> of a
  negative channel count is empty; the flags are the elements 0 and 1 of the list
  that \<^verbatim>\<open>readBits(1)\<close> returns, which always has eight elements.
\<close>

definition PSDLayer_parse :: "fileObj \<Rightarrow> error + (PSDLayer \<times> fileObj)" where
  "PSDLayer_parse f0 =
     and_then (getRectangle f0) (\<lambda>(rect, f1).
     and_then (readShortInt f1) (\<lambda>(cnt, f2).
     and_then (read_channels (nat cnt) f2 Map.empty) (\<lambda>(chs, f3).
     and_then (readString 4 f3) (\<lambda>(bimSignature, f4).
     and_then (if bimSignature = SIGNATIRE_8BIM then Inr () else Inl AssertionError) (\<lambda>u1.
     and_then (readString 4 f4) (\<lambda>(blendCode, f5).
     and_then (case blendMap blendCode of
                 None \<Rightarrow> Inl (KeyError (PyStr blendCode))
               | Some name \<Rightarrow> Inr name) (\<lambda>blendName.
     and_then (readTinyInt f5) (\<lambda>(opa, f6).
     and_then (readTinyInt f6) (\<lambda>(clippingCode, f7).
     and_then (case clippingMap clippingCode of
                 None \<Rightarrow> Inl (KeyError (PyInt clippingCode))
               | Some name \<Rightarrow> Inr name) (\<lambda>clippingName.
     and_then (readBits 1 f7) (\<lambda>(flagsBits, f8).
       Inr (\<lparr>rectangle = rect, chanelsCount = cnt, channels = chs,
             blend = (blendCode, blendName), opacity = opa,
             clipping = (clippingCode, clippingName),
             transpProtected = flagsBits ! 0, visible = flagsBits ! 1\<rparr>, f8))))))))))))"

text \<open>
  Modelled from the spec: \<^verbatim>\<open>PSDLayer(self.f)\<close> decodes the record, the base
  constructor running \<^verbatim>\<open>parse\<close> on the shared cursor.
\<close>

definition PSDLayer_init :: "fileObj \<Rightarrow> error + (PSDLayer \<times> fileObj)" where
  "PSDLayer_init f = PSDLayer_parse f"

section \<open>The layer and mask section\<close>

record PSDLayerMask =
  lm_length :: int
  layerInfoLength :: int
  layersCount :: int
  masklength :: int
  layers :: "PSDLayer list"

text \<open>\<^verbatim>\<open>for i in range(self.layersCount)\<close>: each layer is appended to \<^verbatim>\<open>self.layers\<close>.\<close>

fun read_layers ::
  "nat \<Rightarrow> fileObj \<Rightarrow> PSDLayer list \<Rightarrow> error + (PSDLayer list \<times> fileObj)" where
  "read_layers 0 f ls = Inr (ls, f)"
| "read_layers (Suc n) f ls =
     and_then (PSDLayer_init f) (\<lambda>(layer, f1). read_layers n f1 (ls @ [layer]))"

text \<open>
  \<^verbatim>\<open>PSDLayerMask.parse\<close>. A negative layer count is replaced by its absolute value
  before the loop; nothing else is done with its sign. The declared section length
  is stored and not used again.
\<close>

definition PSDLayerMask_parse :: "fileObj \<Rightarrow> error + (PSDLayerMask \<times> fileObj)" where
  "PSDLayerMask_parse f0 =
     and_then (updateLength f0) (\<lambda>(len, f1).
     and_then (readInt f1) (\<lambda>(infoLen, f2).
     and_then (readShortInt f2) (\<lambda>(cnt0, f3).
     and_then (Inr (if cnt0 < 0 then abs cnt0 else cnt0)) (\<lambda>cnt.
     and_then (read_layers (nat cnt) f3 []) (\<lambda>(ls, f4).
     and_then (readInt f4) (\<lambda>(mlen, f5).
     and_then (skip (nat mlen) f5) (\<lambda>f6.
       Inr (\<lparr>lm_length = len, layerInfoLength = infoLen, layersCount = cnt,
             masklength = mlen, layers = ls\<rparr>, f6))))))))"

section \<open>Building test inputs\<close>

text \<open>
  The big-endian encodings of a 16-bit and a 32-bit field, used to write down the
  files the theorems decode. A negative 16-bit value comes out in two's complement,
  since \<open>div\<close> on \<open>int\<close> rounds down.
\<close>

definition be16 :: "int \<Rightarrow> string" where
  "be16 n = [char_of (n div 256), char_of n]"

definition be32 :: "int \<Rightarrow> string" where
  "be32 n = [char_of (n div 16777216), char_of (n div 65536), char_of (n div 256), char_of n]"

definition file_of :: "string \<Rightarrow> fileObj" where
  "file_of bs = \<lparr>unread = bs, tell = 0\<rparr>"

text \<open>
  The 26 bytes of a header with the given fields, the six bytes of one channel entry
  and the bytes of a layer record as \<^verbatim>\<open>PSDLayer.parse\<close> reads it: the rectangle,
  the channel count and entries, the blend signature and key, opacity, clipping and
  the flags byte.
\<close>

definition header_bytes ::
  "string \<Rightarrow> int \<Rightarrow> string \<Rightarrow> int \<Rightarrow> int \<Rightarrow> int \<Rightarrow> int \<Rightarrow> int \<Rightarrow> string" where
  "header_bytes sig ver reserved chn h w d cm =
     sig @ be16 ver @ reserved @ be16 chn @ be32 h @ be32 w @ be16 d @ be16 cm"

definition channel_bytes :: "int \<times> int \<Rightarrow> string" where
  "channel_bytes e = be16 (fst e) @ be32 (snd e)"

definition layer_bytes ::
  "int \<times> int \<times> int \<times> int \<Rightarrow> (int \<times> int) list \<Rightarrow> string \<Rightarrow> string \<Rightarrow> int \<Rightarrow> int \<Rightarrow> char
     \<Rightarrow> string" where
  "layer_bytes rect chans sig key opa clip flags =
     (case rect of (y0, x0, y1, x1) \<Rightarrow> be32 y0 @ be32 x0 @ be32 y1 @ be32 x1)
     @ be16 (int (length chans)) @ concat (map channel_bytes chans)
     @ sig @ key @ [char_of opa, char_of clip, flags]"

text \<open>A channel entry whose id and length fit their fields.\<close>

fun channel_ok :: "int \<times> int \<Rightarrow> bool" where
  "channel_ok (i, l) = (- 32768 \<le> i \<and> i < 32768 \<and> 0 \<le> l \<and> l < 4294967296)"

text \<open>
  The fields of a layer record as they stand in the file, with the blend signature
  \<^verbatim>\<open>8BIM\<close> in place; the bytes of such a record; and when the fields fit their
  widths and the blend key and the clipping code are keys of their tables. The last
  definition runs \<^verbatim>\<open>PSDLayer.parse\<close> on the bytes of one record alone, from the
  beginning of a file.
\<close>

record layer_fields =
  fl_rect :: "int \<times> int \<times> int \<times> int"
  fl_chans :: "(int \<times> int) list"
  fl_key :: string
  fl_opacity :: int
  fl_clip :: int
  fl_flags :: char

definition layer_fields_bytes :: "layer_fields \<Rightarrow> string" where
  "layer_fields_bytes s =
     layer_bytes (fl_rect s) (fl_chans s) ''8BIM'' (fl_key s) (fl_opacity s) (fl_clip s)
       (fl_flags s)"

definition in_int32 :: "int \<Rightarrow> bool" where
  "in_int32 v = (- 2147483648 \<le> v \<and> v < 2147483648)"

definition layer_fields_ok :: "layer_fields \<Rightarrow> bool" where
  "layer_fields_ok s =
     ((case fl_rect s of (y0, x0, y1, x1) \<Rightarrow>
         in_int32 y0 \<and> in_int32 x0 \<and> in_int32 y1 \<and> in_int32 x1)
      \<and> list_all channel_ok (fl_chans s) \<and> length (fl_chans s) < 32768
      \<and> length (fl_key s) = 4 \<and> fl_key s \<in> dom blendMap
      \<and> 0 \<le> fl_opacity s \<and> fl_opacity s < 256
      \<and> fl_clip s \<in> dom clippingMap)"

definition decode_alone :: "string \<Rightarrow> PSDLayer option" where
  "decode_alone bs =
     (case PSDLayer_parse (file_of bs) of Inl e \<Rightarrow> None | Inr (layer, f) \<Rightarrow> Some layer)"

section \<open>Facts about the readers\<close>

lemma and_then_Inl [simp]: "and_then (Inl e) k = Inl e"
  by (simp add: and_then_def)

lemma and_then_Inr [simp]: "and_then (Inr x) k = k x"
  by (simp add: and_then_def)

lemma length_be16 [simp]: "length (be16 n) = 2"
  by (simp add: be16_def)

lemma length_be32 [simp]: "length (be32 n) = 4"
  by (simp add: be32_def)

lemma be_uint_be16: "be_uint (be16 n) = n mod 65536"
proof -
  have "n mod (256 * 256) = 256 * (n div 256 mod 256) + n mod 256"
    by (rule zmod_zmult2_eq) simp
  then show ?thesis
    by (simp add: be_uint_def be16_def)
qed

lemma be_uint_be32: "be_uint (be32 n) = n mod 4294967296"
proof -
  have e: "be_uint (be32 n) =
      ((n div 16777216 mod 256 * 256 + n div 65536 mod 256) * 256 + n div 256 mod 256) * 256
        + n mod 256"
    by (simp add: be_uint_def be32_def)
  have d1: "n div 256 div 256 = n div 65536"
    by (simp add: zdiv_zmult2_eq [symmetric])
  have d2: "n div 65536 div 256 = n div 16777216"
    by (simp add: zdiv_zmult2_eq [symmetric])
  have "n mod (256 * 16777216) = 256 * (n div 256 mod 16777216) + n mod 256"
    by (rule zmod_zmult2_eq) simp
  then have a: "n mod 4294967296 = 256 * (n div 256 mod 16777216) + n mod 256"
    by simp
  have "(n div 256) mod (256 * 65536)
             = 256 * (n div 256 div 256 mod 65536) + n div 256 mod 256"
    by (rule zmod_zmult2_eq) simp
  then have b: "n div 256 mod 16777216 = 256 * (n div 65536 mod 65536) + n div 256 mod 256"
    by (simp add: d1)
  have "(n div 65536) mod (256 * 256)
             = 256 * (n div 65536 div 256 mod 256) + n div 65536 mod 256"
    by (rule zmod_zmult2_eq) simp
  then have c: "n div 65536 mod 65536 = 256 * (n div 16777216 mod 256) + n div 65536 mod 256"
    by (simp add: d2)
  show ?thesis
    unfolding e a b c by (simp add: algebra_simps)
qed

lemma to_signed_mod:
  "- 32768 \<le> n \<Longrightarrow> n < 32768 \<Longrightarrow> to_signed 65536 (n mod 65536) = n"
proof (cases "0 \<le> n")
  case True
  assume "n < 32768"
  with True have "n mod 65536 = n" by simp
  with \<open>n < 32768\<close> show ?thesis by (simp add: to_signed_def)
next
  case False
  assume a: "- 32768 \<le> n"
  have "(n + 65536) mod 65536 = n + 65536"
    using a False by (intro mod_pos_pos_trivial) simp_all
  then have "n mod 65536 = n + 65536" by simp
  with a False show ?thesis by (simp add: to_signed_def)
qed

lemma read_exact_append:
  "length bs = n \<Longrightarrow>
   read_exact n \<lparr>unread = bs @ rest, tell = t\<rparr> = Inr (bs, \<lparr>unread = rest, tell = t + n\<rparr>)"
  by (simp add: read_exact_def)

lemma readString_append:
  "length bs = n \<Longrightarrow>
   readString n \<lparr>unread = bs @ rest, tell = t\<rparr> = Inr (bs, \<lparr>unread = rest, tell = t + n\<rparr>)"
  by (simp add: readString_def read_exact_append)

lemma skip_append:
  "length bs = n \<Longrightarrow>
   skip n \<lparr>unread = bs @ rest, tell = t\<rparr> = Inr \<lparr>unread = rest, tell = t + n\<rparr>"
  by (simp add: skip_def read_exact_append)

lemma readShortInt_be16:
  "- 32768 \<le> n \<Longrightarrow> n < 32768 \<Longrightarrow>
   readShortInt \<lparr>unread = be16 n @ rest, tell = t\<rparr> = Inr (n, \<lparr>unread = rest, tell = t + 2\<rparr>)"
  by (simp add: readShortInt_def read_exact_append be_uint_be16 to_signed_mod)

lemma readInt_be32:
  "0 \<le> n \<Longrightarrow> n < 4294967296 \<Longrightarrow>
   readInt \<lparr>unread = be32 n @ rest, tell = t\<rparr> = Inr (n, \<lparr>unread = rest, tell = t + 4\<rparr>)"
  by (simp add: readInt_def read_exact_append be_uint_be32)

lemma validate_mustBe:
  "truthy m \<Longrightarrow> v \<noteq> PyNone \<Longrightarrow>
   validate (PyStr l) v None m None =
     (if v = m then Inr ()
      else Inl (BaseException (l @ '' should be '' @ str_of m @ '' but was '' @ str_of v)))"
  by (simp add: validate_def)

lemma validate_range:
  assumes "lo \<le> hi"
  shows "validate (PyStr l) (PyInt v) (Some (map PyInt [lo..hi])) PyNone None =
     (if lo \<le> v \<and> v \<le> hi then Inr ()
      else Inl (BaseException (l @ '' must be between '' @ show_int lo @ '' and ''
                               @ show_int hi @ '', but was '' @ show_int v)))"
proof -
  have ne: "map PyInt [lo..hi] \<noteq> []"
    using assms by simp
  have h: "hd (map PyInt [lo..hi]) = PyInt lo"
    using assms by (simp add: upto_rec1)
  have la: "last (map PyInt [lo..hi]) = PyInt hi"
    using assms by (simp add: upto_rec2)
  have m: "PyInt v \<in> set (map PyInt [lo..hi]) \<longleftrightarrow> lo \<le> v \<and> v \<le> hi"
    by auto
  show ?thesis
    unfolding validate_def using ne h la m by (simp add: fmt_d_def)
qed

lemma str_of_DEPTH_LIST: "str_of_list DEPTH_LIST = ''[1, 8, 16]''"
  by code_simp

lemma validate_depth:
  "validate (PyStr l) (PyInt d) None PyNone (Some DEPTH_LIST) =
     (if d = 1 \<or> d = 8 \<or> d = 16 then Inr ()
      else Inl (BaseException (l @ '' must be one of [1, 8, 16], but was '' @ show_int d)))"
  using str_of_DEPTH_LIST by (simp add: validate_def DEPTH_LIST_def)

lemma PSDHeader_parse_bytes:
  assumes "length sig = 4" "length reserved = 6"
    and "- 32768 \<le> ver" "ver < 32768" "- 32768 \<le> chn" "chn < 32768"
    and "0 \<le> h" "h < 4294967296" "0 \<le> w" "w < 4294967296"
    and "- 32768 \<le> d" "d < 32768" "- 32768 \<le> cm" "cm < 32768"
  shows "PSDHeader_parse \<lparr>unread = header_bytes sig ver reserved chn h w d cm @ rest, tell = t\<rparr> =
     and_then (validate (PyStr ''Signature'') (PyStr sig) None (PyStr SIGNATURE) None) (\<lambda>u1.
     and_then (validate (PyStr ''Version'') (PyInt ver) None (PyInt VERSION) None) (\<lambda>u2.
     and_then (validate (PyStr ''Channels number'') (PyInt chn)
                 (Some CHANNELS_RANGE) PyNone None) (\<lambda>u3.
     and_then (validate (PyStr ''Height'') (PyInt h) (Some SIZE_RANGE) PyNone None) (\<lambda>u4.
     and_then (validate (PyStr ''Width'') (PyInt w) (Some SIZE_RANGE) PyNone None) (\<lambda>u5.
     and_then (validate (PyStr ''Depth'') (PyInt d) None PyNone (Some DEPTH_LIST)) (\<lambda>u6.
       (case colorModeMap cm of
          None \<Rightarrow> Inl (KeyError (PyInt cm))
        | Some label \<Rightarrow>
            Inr (\<lparr>signature = sig, version = ver, channelsNum = chn, height = h,
                  width = w, depth = d, colorMode = (cm, label)\<rparr>,
                 \<lparr>unread = rest, tell = t + 26\<rparr>))))))))"
  using assms
  unfolding PSDHeader_parse_def header_bytes_def
  by (cases "colorModeMap cm")
    (simp_all add: readString_append readShortInt_be16 readInt_be32 skip_append add.commute)


lemma to_signed_mod32:
  "- 2147483648 \<le> n \<Longrightarrow> n < 2147483648 \<Longrightarrow> to_signed 4294967296 (n mod 4294967296) = n"
proof (cases "0 \<le> n")
  case True
  assume "n < 2147483648"
  with True have "n mod 4294967296 = n" by simp
  with \<open>n < 2147483648\<close> show ?thesis by (simp add: to_signed_def)
next
  case False
  assume a: "- 2147483648 \<le> n"
  have "(n + 4294967296) mod 4294967296 = n + 4294967296"
    using a False by (intro mod_pos_pos_trivial) simp_all
  then have "n mod 4294967296 = n + 4294967296" by simp
  with a False show ?thesis by (simp add: to_signed_def)
qed

lemma readTinyInt_byte:
  "0 \<le> n \<Longrightarrow> n < 256 \<Longrightarrow>
   readTinyInt \<lparr>unread = char_of n # rest, tell = t\<rparr> = Inr (n, \<lparr>unread = rest, tell = t + 1\<rparr>)"
  by (simp add: readTinyInt_def read_exact_def be_uint_def)

lemma readBits_byte:
  "readBits (Suc 0) \<lparr>unread = b # rest, tell = t\<rparr> = Inr (bits_of_byte b, \<lparr>unread = rest, tell = t + 1\<rparr>)"
  by (simp add: readBits_def read_exact_def)

lemma getRectangle_bytes:
  assumes "- 2147483648 \<le> a" "a < 2147483648" "- 2147483648 \<le> b" "b < 2147483648"
    and "- 2147483648 \<le> c" "c < 2147483648" "- 2147483648 \<le> d" "d < 2147483648"
  shows "getRectangle \<lparr>unread = be32 a @ be32 b @ be32 c @ be32 d @ rest, tell = t\<rparr>
           = Inr ((a, b, c, d), \<lparr>unread = rest, tell = t + 16\<rparr>)"
proof -
  have "read_exact 16 \<lparr>unread = (be32 a @ be32 b @ be32 c @ be32 d) @ rest, tell = t\<rparr>
          = Inr (be32 a @ be32 b @ be32 c @ be32 d, \<lparr>unread = rest, tell = t + 16\<rparr>)"
    by (rule read_exact_append) simp
  then show ?thesis
    using assms by (simp add: getRectangle_def be_uint_be32 to_signed_mod32)
qed

lemma read_channels_bytes:
  "list_all channel_ok chans \<Longrightarrow>
   read_channels (length chans)
       \<lparr>unread = concat (map channel_bytes chans) @ rest, tell = t\<rparr> chs
     = Inr (foldl (\<lambda>m e. add_channel m (fst e) (snd e)) chs chans,
            \<lparr>unread = rest, tell = t + 6 * length chans\<rparr>)"
proof (induction chans arbitrary: chs t)
  case Nil
  then show ?case by simp
next
  case (Cons e chans)
  obtain i l where e: "e = (i, l)" by (cases e)
  from Cons.prems e have ok: "- 32768 \<le> i" "i < 32768" "0 \<le> l" "l < 4294967296"
    and rest: "list_all channel_ok chans"
    by simp_all
  show ?case
    using Cons.IH [OF rest, of "t + 6" "add_channel chs i l"] ok e
    by (simp add: channel_bytes_def readShortInt_be16 readInt_be32 ac_simps)
qed


lemma PSDLayer_parse_bytes:
  assumes rect: "- 2147483648 \<le> a" "a < 2147483648" "- 2147483648 \<le> b" "b < 2147483648"
      "- 2147483648 \<le> c" "c < 2147483648" "- 2147483648 \<le> d" "d < 2147483648"
    and chans: "list_all channel_ok chans" "length chans < 32768"
    and strs: "length sig = 4" "length key = 4"
    and bytes: "0 \<le> opa" "opa < 256" "0 \<le> clip" "clip < 256"
  shows "PSDLayer_parse
           \<lparr>unread = layer_bytes (a, b, c, d) chans sig key opa clip flags @ rest, tell = t\<rparr> =
     and_then (if sig = SIGNATIRE_8BIM then Inr () else Inl AssertionError) (\<lambda>u1.
     and_then (case blendMap key of
                 None \<Rightarrow> Inl (KeyError (PyStr key))
               | Some name \<Rightarrow> Inr name) (\<lambda>blendName.
     and_then (case clippingMap clip of
                 None \<Rightarrow> Inl (KeyError (PyInt clip))
               | Some name \<Rightarrow> Inr name) (\<lambda>clippingName.
       Inr (\<lparr>rectangle = (a, b, c, d), chanelsCount = int (length chans),
             channels = foldl (\<lambda>m e. add_channel m (fst e) (snd e)) Map.empty chans,
             blend = (key, blendName), opacity = opa,
             clipping = (clip, clippingName),
             transpProtected = bits_of_byte flags ! 0, visible = bits_of_byte flags ! 1\<rparr>,
            \<lparr>unread = rest, tell = t + 29 + 6 * length chans\<rparr>))))"
proof -
  have cnt: "- 32768 \<le> int (length chans)" "int (length chans) < 32768"
    using chans by simp_all
  show ?thesis
    unfolding PSDLayer_parse_def layer_bytes_def
    using rect strs bytes
    by (simp add: getRectangle_bytes readShortInt_be16 [OF cnt]
        read_channels_bytes [OF chans(1)] readString_append readTinyInt_byte readBits_byte
        ac_simps)
qed

lemma show_int_bounds: "show_int 1 = ''1''" "show_int 56 = ''56''" "show_int 30000 = ''30000''"
  by (simp_all add: show_int_def show_digits.simps)

lemma validate_channels:
  "validate (PyStr l) (PyInt x) (Some CHANNELS_RANGE) PyNone None =
     (if x < 1 \<or> 56 < x then
        Inl (BaseException (l @ '' must be between 1 and 56, but was '' @ show_int x))
      else Inr ())"
proof -
  have "(1::int) \<le> 56" by simp
  from validate_range [OF this, of l x] show ?thesis
    unfolding CHANNELS_RANGE_def show_int_bounds
    by (cases "x < 1 \<or> 56 < x") (simp_all only: if_True if_False, auto)
qed

lemma validate_size:
  "validate (PyStr l) (PyInt x) (Some SIZE_RANGE) PyNone None =
     (if x < 1 \<or> 30000 < x then
        Inl (BaseException (l @ '' must be between 1 and 30000, but was '' @ show_int x))
      else Inr ())"
proof -
  have "(1::int) \<le> 30000" by simp
  from validate_range [OF this, of l x] show ?thesis
    unfolding SIZE_RANGE_def show_int_bounds
    by (cases "x < 1 \<or> 30000 < x") (simp_all only: if_True if_False, auto)
qed

lemma validate_signature_ok:
  "validate (PyStr ''Signature'') (PyStr ''8BPS'') None (PyStr SIGNATURE) None = Inr ()"
  by (simp add: validate_def SIGNATURE_def)

lemma validate_version_ok:
  "validate (PyStr ''Version'') (PyInt 1) None (PyInt VERSION) None = Inr ()"
  by (simp add: validate_def VERSION_def)

lemma PSDHeader_parse_valid_prefix:
  assumes "length reserved = 6"
    and "- 32768 \<le> chn" "chn < 32768" "0 \<le> h" "h < 4294967296" "0 \<le> w" "w < 4294967296"
    and "- 32768 \<le> d" "d < 32768" "- 32768 \<le> cm" "cm < 32768"
  shows "PSDHeader_parse
           \<lparr>unread = header_bytes ''8BPS'' 1 reserved chn h w d cm @ rest, tell = t\<rparr> =
     (if chn < 1 \<or> 56 < chn then
        Inl (BaseException
               (''Channels number must be between 1 and 56, but was '' @ show_int chn))
      else if h < 1 \<or> 30000 < h then
        Inl (BaseException (''Height must be between 1 and 30000, but was '' @ show_int h))
      else if w < 1 \<or> 30000 < w then
        Inl (BaseException (''Width must be between 1 and 30000, but was '' @ show_int w))
      else if d \<noteq> 1 \<and> d \<noteq> 8 \<and> d \<noteq> 16 then
        Inl (BaseException (''Depth must be one of [1, 8, 16], but was '' @ show_int d))
      else
        (case colorModeMap cm of
           None \<Rightarrow> Inl (KeyError (PyInt cm))
         | Some label \<Rightarrow>
             Inr (\<lparr>signature = ''8BPS'', version = 1, channelsNum = chn, height = h,
                   width = w, depth = d, colorMode = (cm, label)\<rparr>,
                  \<lparr>unread = rest, tell = t + 26\<rparr>)))"
proof -
  have "length ''8BPS'' = 4" "- 32768 \<le> (1::int)" "(1::int) < 32768"
    by simp_all
  note PSDHeader_parse_bytes [OF this(1) assms(1) this(2,3) assms(2-), of rest t]
  then show ?thesis
    by (simp add: validate_signature_ok validate_version_ok validate_channels validate_size
        validate_depth)
qed

lemma readInt_be32_end:
  "0 \<le> n \<Longrightarrow> n < 4294967296 \<Longrightarrow>
   readInt \<lparr>unread = be32 n, tell = t\<rparr> = Inr (n, \<lparr>unread = [], tell = t + 4\<rparr>)"
  using readInt_be32 [of n "[]" t] by simp

lemma bits_of_byte_examples:
  "bits_of_byte (CHR 0x00) = [False, False, False, False, False, False, False, False]"
  "bits_of_byte (CHR 0x01) = [False, False, False, False, False, False, False, True]"
  "bits_of_byte (CHR 0x02) = [False, False, False, False, False, False, True, False]"
  "bits_of_byte (CHR 0x80) = [True, False, False, False, False, False, False, False]"
  by code_simp+

lemma layer_decode_example:
  assumes "list_all channel_ok chans" "length chans < 32768"
  shows "PSDLayer_parse
     \<lparr>unread = layer_bytes (0, 0, 10, 10) chans ''8BIM'' ''norm'' 255 0 flags @ rest, tell = t\<rparr>
     = Inr (\<lparr>rectangle = (0, 0, 10, 10), chanelsCount = int (length chans),
             channels = foldl (\<lambda>m e. add_channel m (fst e) (snd e)) Map.empty chans,
             blend = (''norm'', ''normal''), opacity = 255, clipping = (0, ''base''),
             transpProtected = bits_of_byte flags ! 0, visible = bits_of_byte flags ! 1\<rparr>,
            \<lparr>unread = rest, tell = t + 29 + 6 * length chans\<rparr>)"
  using PSDLayer_parse_bytes
    [of 0 0 10 10 chans "''8BIM''" "''norm''" 255 0 flags rest t, OF _ _ _ _ _ _ _ _ assms]
  by (simp add: SIGNATIRE_8BIM_def blendMap_def clippingMap_def)

lemma read_layers_length:
  "read_layers k f ls = Inr (ls', f') \<Longrightarrow> length ls' = length ls + k"
proof (induction k arbitrary: f ls)
  case 0
  then show ?case by simp
next
  case (Suc k)
  from Suc.prems obtain layer f1 where
    "PSDLayer_init f = Inr (layer, f1)" and "read_layers k f1 (ls @ [layer]) = Inr (ls', f')"
    by (cases "PSDLayer_init f") (auto simp add: and_then_def)
  with Suc.IH [of f1 "ls @ [layer]"] show ?case by simp
qed

lemma length_layer_bytes:
  "length sig = 4 \<Longrightarrow> length key = 4 \<Longrightarrow>
   length (layer_bytes (a, b, c, d) chans sig key opa clip flags) = 29 + 6 * length chans"
proof -
  have "length (concat (map channel_bytes chans)) = 6 * length chans"
    by (induction chans) (simp_all add: channel_bytes_def)
  then show "length sig = 4 \<Longrightarrow> length key = 4 \<Longrightarrow> ?thesis"
    by (simp add: layer_bytes_def)
qed

lemma PSDLayer_parse_fields:
  assumes "layer_fields_ok s"
  shows "\<exists>layer. \<forall>rest t.
     PSDLayer_parse \<lparr>unread = layer_fields_bytes s @ rest, tell = t\<rparr>
       = Inr (layer, \<lparr>unread = rest, tell = t + length (layer_fields_bytes s)\<rparr>)"
proof -
  obtain a b c d where rect: "fl_rect s = (a, b, c, d)"
    by (cases "fl_rect s")
  from assms rect have r: "- 2147483648 \<le> a" "a < 2147483648" "- 2147483648 \<le> b"
      "b < 2147483648" "- 2147483648 \<le> c" "c < 2147483648" "- 2147483648 \<le> d"
      "d < 2147483648"
    and ch: "list_all channel_ok (fl_chans s)" "length (fl_chans s) < 32768"
    and key: "length (fl_key s) = 4"
    and op: "0 \<le> fl_opacity s" "fl_opacity s < 256"
    by (simp_all add: layer_fields_ok_def in_int32_def)
  from assms obtain bn where bn: "blendMap (fl_key s) = Some bn"
    by (auto simp add: layer_fields_ok_def)
  from assms obtain cn where cn: "clippingMap (fl_clip s) = Some cn"
    by (auto simp add: layer_fields_ok_def)
  from cn have cl: "0 \<le> fl_clip s" "fl_clip s < 256"
    by (auto simp add: clippingMap_def split: if_splits)
  have sig: "length ''8BIM'' = 4" by simp
  have len: "length (layer_fields_bytes s) = 29 + 6 * length (fl_chans s)"
    by (simp add: layer_fields_bytes_def rect length_layer_bytes key)
  show ?thesis
    using PSDLayer_parse_bytes [OF r ch sig key op cl, of "fl_flags s"] bn cn
    by (simp add: layer_fields_bytes_def rect length_layer_bytes key SIGNATIRE_8BIM_def
        add.assoc)
qed

lemma decode_alone_fields:
  assumes "\<forall>rest t. PSDLayer_parse \<lparr>unread = layer_fields_bytes s @ rest, tell = t\<rparr>
       = Inr (layer, \<lparr>unread = rest, tell = t + length (layer_fields_bytes s)\<rparr>)"
  shows "decode_alone (layer_fields_bytes s) = Some layer"
proof -
  from assms have "PSDLayer_parse \<lparr>unread = layer_fields_bytes s @ [], tell = 0\<rparr>
       = Inr (layer, \<lparr>unread = [], tell = 0 + length (layer_fields_bytes s)\<rparr>)"
    by blast
  then show ?thesis
    by (simp add: decode_alone_def file_of_def)
qed

lemma read_layers_fields:
  assumes "list_all layer_fields_ok specs"
  shows "\<exists>ls. map Some ls = map (\<lambda>s. decode_alone (layer_fields_bytes s)) specs \<and>
     (\<forall>rest t acc.
        read_layers (length specs)
            \<lparr>unread = concat (map layer_fields_bytes specs) @ rest, tell = t\<rparr> acc
          = Inr (acc @ ls,
                 \<lparr>unread = rest, tell = t + length (concat (map layer_fields_bytes specs))\<rparr>))"
  using assms
proof (induction specs)
  case Nil
  then show ?case by simp
next
  case (Cons s specs)
  from Cons.prems have ok: "layer_fields_ok s" and oks: "list_all layer_fields_ok specs"
    by simp_all
  from PSDLayer_parse_fields [OF ok] obtain layer where
    layer: "\<forall>rest t. PSDLayer_parse \<lparr>unread = layer_fields_bytes s @ rest, tell = t\<rparr>
       = Inr (layer, \<lparr>unread = rest, tell = t + length (layer_fields_bytes s)\<rparr>)"
    by blast
  from Cons.IH [OF oks] obtain ls where
    ls: "map Some ls = map (\<lambda>s. decode_alone (layer_fields_bytes s)) specs"
    and run: "\<forall>rest t acc.
        read_layers (length specs)
            \<lparr>unread = concat (map layer_fields_bytes specs) @ rest, tell = t\<rparr> acc
          = Inr (acc @ ls,
                 \<lparr>unread = rest, tell = t + length (concat (map layer_fields_bytes specs))\<rparr>)"
    by blast
  have "map Some (layer # ls) = map (\<lambda>s. decode_alone (layer_fields_bytes s)) (s # specs)"
    using ls decode_alone_fields [OF layer] by simp
  moreover have "\<forall>rest t acc.
        read_layers (length (s # specs))
            \<lparr>unread = concat (map layer_fields_bytes (s # specs)) @ rest, tell = t\<rparr> acc
          = Inr (acc @ layer # ls,
                 \<lparr>unread = rest,
                    tell = t + length (concat (map layer_fields_bytes (s # specs)))\<rparr>)"
    using layer run by (simp add: PSDLayer_init_def add.assoc)
  ultimately show ?case by blast
qed

section \<open>The validation utility: falsy expected values\<close>

text \<open>
  Claim C10 says that \<^verbatim>\<open>validate(label, value, mustBe=m)\<close> with a falsy \<open>m\<close> raises
  nothing for every label and every observed value. The two assertions at the head
  of the function run before the test of \<open>m\<close>: with the value \<open>None\<close> (and no range
  and no list), or with the label \<open>None\<close>, the call raises \<^verbatim>\<open>AssertionError\<close>.
\<close>

theorem validate_falsy_mustBe_none_asserts:
  "validate (PyStr ''Version'') PyNone None (PyInt 0) None = Inl AssertionError
   \<and> validate PyNone (PyInt 7) None (PyInt 0) None = Inl AssertionError"
  by (simp add: validate_def)

text \<open>
  Claim C10, as amended. For a label and an observed value that are not \<open>None\<close>, a
  call \<^verbatim>\<open>validate(label, value, mustBe=m)\<close> whose expected value \<open>m\<close> is falsy (0,
  the empty string, or \<open>None\<close>) raises nothing, whatever the observed value is: the
  exact-match test sits under \<^verbatim>\<open>if mustBe:\<close>, and with no range and no list the
  other two branches are skipped too.
\<close>

theorem validate_falsy_mustBe_accepts:
  "label \<noteq> PyNone \<Longrightarrow> val \<noteq> PyNone \<Longrightarrow> \<not> truthy m \<Longrightarrow>
   validate label val None m None = Inr ()"
  by (simp add: validate_def)

theorem validate_falsy_mustBe_accepts_witness:
  "validate (PyStr ''Version'') (PyInt 7) None (PyInt 0) None = Inr ()
   \<and> PyInt 7 \<noteq> PyInt 0
   \<and> validate (PyStr ''Signature'') (PyStr ''8BPX'') None (PyStr []) None = Inr ()"
  using validate_falsy_mustBe_accepts [of "PyStr ''Version''" "PyInt 7" "PyInt 0"]
    validate_falsy_mustBe_accepts [of "PyStr ''Signature''" "PyStr ''8BPX''" "PyStr []"]
  by simp

section \<open>The header: signature\<close>

text \<open>
  Claim C9. A file whose first four bytes are not the tag \<^verbatim>\<open>8BPS\<close> is refused by
  \<^verbatim>\<open>PSDHeader.parse\<close> with the exact-match error of \<^verbatim>\<open>validate\<close>, whose message
  starts with the field name \<^verbatim>\<open>Signature\<close> and gives the expected tag and the
  bytes found; nothing after the signature is read.
\<close>

theorem header_signature_mismatch:
  "length sig = 4 \<Longrightarrow> sig \<noteq> SIGNATURE \<Longrightarrow>
   PSDHeader_parse \<lparr>unread = sig @ rest, tell = t\<rparr>
     = Inl (BaseException (''Signature should be 8BPS but was '' @ sig))"
  by (simp add: PSDHeader_parse_def readString_append validate_def SIGNATURE_def)

theorem header_signature_mismatch_witness:
  "PSDHeader_parse \<lparr>unread = ''8BPX'' @ be16 1, tell = 0\<rparr>
     = Inl (BaseException ''Signature should be 8BPS but was 8BPX'')"
  using header_signature_mismatch [of "''8BPX''" "be16 1" 0]
  by (simp add: SIGNATURE_def)

section \<open>The header: bounds of the numeric fields\<close>

text \<open>
  Claim C4. For a header with the right signature and version, \<^verbatim>\<open>PSDHeader.parse\<close>
  accepts a channel count from 1 to 56, a height and a width from 1 to 30000 and a
  depth of 1, 8 or 16, the bounds included, and then goes on to the color mode. A
  channel count, height or width outside its range (0 and 57, 0 and 30001 among
  them) raises the range error of \<^verbatim>\<open>validate\<close> for the first such field, and any
  other depth raises its one-of error. The fields are checked in file order.
\<close>

theorem header_bounds:
  assumes "length reserved = 6"
    and "- 32768 \<le> chn" "chn < 32768" "0 \<le> h" "h < 4294967296" "0 \<le> w" "w < 4294967296"
    and "- 32768 \<le> d" "d < 32768" "- 32768 \<le> cm" "cm < 32768"
  shows "PSDHeader_parse
           \<lparr>unread = header_bytes ''8BPS'' 1 reserved chn h w d cm @ rest, tell = t\<rparr> =
     (if chn < 1 \<or> 56 < chn then
        Inl (BaseException
               (''Channels number must be between 1 and 56, but was '' @ show_int chn))
      else if h < 1 \<or> 30000 < h then
        Inl (BaseException (''Height must be between 1 and 30000, but was '' @ show_int h))
      else if w < 1 \<or> 30000 < w then
        Inl (BaseException (''Width must be between 1 and 30000, but was '' @ show_int w))
      else if d \<noteq> 1 \<and> d \<noteq> 8 \<and> d \<noteq> 16 then
        Inl (BaseException (''Depth must be one of [1, 8, 16], but was '' @ show_int d))
      else
        (case colorModeMap cm of
           None \<Rightarrow> Inl (KeyError (PyInt cm))
         | Some label \<Rightarrow>
             Inr (\<lparr>signature = ''8BPS'', version = 1, channelsNum = chn, height = h,
                   width = w, depth = d, colorMode = (cm, label)\<rparr>,
                  \<lparr>unread = rest, tell = t + 26\<rparr>)))"
  using assms by (rule PSDHeader_parse_valid_prefix)

theorem header_bounds_witness:
  "PSDHeader_parse (file_of (header_bytes ''8BPS'' 1 (replicate 6 (CHR 0x00)) 56 30000 1 16 3))
     = Inr (\<lparr>signature = ''8BPS'', version = 1, channelsNum = 56, height = 30000, width = 1,
             depth = 16, colorMode = (3, ''RGB Color'')\<rparr>, \<lparr>unread = [], tell = 26\<rparr>)
   \<and> PSDHeader_parse (file_of (header_bytes ''8BPS'' 1 (replicate 6 (CHR 0x00)) 1 1 30000 1 3))
     = Inr (\<lparr>signature = ''8BPS'', version = 1, channelsNum = 1, height = 1, width = 30000,
             depth = 1, colorMode = (3, ''RGB Color'')\<rparr>, \<lparr>unread = [], tell = 26\<rparr>)
   \<and> PSDHeader_parse (file_of (header_bytes ''8BPS'' 1 (replicate 6 (CHR 0x00)) 57 10 10 8 3))
     = Inl (BaseException ''Channels number must be between 1 and 56, but was 57'')
   \<and> PSDHeader_parse (file_of (header_bytes ''8BPS'' 1 (replicate 6 (CHR 0x00)) 0 10 10 8 3))
     = Inl (BaseException ''Channels number must be between 1 and 56, but was 0'')
   \<and> PSDHeader_parse (file_of (header_bytes ''8BPS'' 1 (replicate 6 (CHR 0x00)) 3 0 10 8 3))
     = Inl (BaseException ''Height must be between 1 and 30000, but was 0'')
   \<and> PSDHeader_parse (file_of (header_bytes ''8BPS'' 1 (replicate 6 (CHR 0x00)) 3 10 30001 8 3))
     = Inl (BaseException ''Width must be between 1 and 30000, but was 30001'')
   \<and> PSDHeader_parse (file_of (header_bytes ''8BPS'' 1 (replicate 6 (CHR 0x00)) 3 10 10 4 3))
     = Inl (BaseException ''Depth must be one of [1, 8, 16], but was 4'')
   \<and> PSDHeader_parse (file_of (header_bytes ''8BPS'' 1 (replicate 6 (CHR 0x00)) 3 10 10 32 3))
     = Inl (BaseException ''Depth must be one of [1, 8, 16], but was 32'')"
  using header_bounds [of "replicate 6 (CHR 0x00)" 56 30000 1 16 3 "[]" 0]
    header_bounds [of "replicate 6 (CHR 0x00)" 1 1 30000 1 3 "[]" 0]
    header_bounds [of "replicate 6 (CHR 0x00)" 57 10 10 8 3 "[]" 0]
    header_bounds [of "replicate 6 (CHR 0x00)" 0 10 10 8 3 "[]" 0]
    header_bounds [of "replicate 6 (CHR 0x00)" 3 0 10 8 3 "[]" 0]
    header_bounds [of "replicate 6 (CHR 0x00)" 3 10 30001 8 3 "[]" 0]
    header_bounds [of "replicate 6 (CHR 0x00)" 3 10 10 4 3 "[]" 0]
    header_bounds [of "replicate 6 (CHR 0x00)" 3 10 10 32 3 "[]" 0]
  by (simp add: file_of_def colorModeMap_def show_int_def show_digits.simps)

section \<open>The header: color modes\<close>

text \<open>
  Claim C5. With the other fields valid, the color-mode codes 0, 1, 2, 3, 4, 7, 8 and
  9 decode to the labels Bitmap, Grayscale, Indexed Color, RGB Color, CMYK Color,
  Multichannel, Duotone and Lab Color; every other code, so 5, 6 and every value
  above 9, fails with the \<^verbatim>\<open>KeyError\<close> of the dictionary lookup.
\<close>

theorem header_color_mode_labels:
  assumes "length reserved = 6"
    and "1 \<le> chn" "chn \<le> 56" "1 \<le> h" "h \<le> 30000" "1 \<le> w" "w \<le> 30000"
    and "d = 1 \<or> d = 8 \<or> d = 16" and "- 32768 \<le> cm" "cm < 32768"
  shows "PSDHeader_parse
           \<lparr>unread = header_bytes ''8BPS'' 1 reserved chn h w d cm @ rest, tell = t\<rparr> =
     (let decoded = (\<lambda>label.
            Inr (\<lparr>signature = ''8BPS'', version = 1, channelsNum = chn, height = h,
                  width = w, depth = d, colorMode = (cm, label)\<rparr>,
                 \<lparr>unread = rest, tell = t + 26\<rparr>))
      in if cm = 0 then decoded ''Bitmap''
         else if cm = 1 then decoded ''Grayscale''
         else if cm = 2 then decoded ''Indexed Color''
         else if cm = 3 then decoded ''RGB Color''
         else if cm = 4 then decoded ''CMYK Color''
         else if cm = 7 then decoded ''Multichannel''
         else if cm = 8 then decoded ''Duotone''
         else if cm = 9 then decoded ''Lab Color''
         else Inl (KeyError (PyInt cm)))"
proof -
  have "- 32768 \<le> chn" "chn < 32768" "0 \<le> h" "h < 4294967296" "0 \<le> w" "w < 4294967296"
    "- 32768 \<le> d" "d < 32768"
    using assms by auto
  from PSDHeader_parse_valid_prefix [OF assms(1) this assms(9,10), of rest t] assms(2-8)
  show ?thesis
    by (auto simp add: colorModeMap_def Let_def)
qed

theorem header_color_mode_labels_witness:
  "PSDHeader_parse (file_of (header_bytes ''8BPS'' 1 (replicate 6 (CHR 0x00)) 3 10 10 8 9))
     = Inr (\<lparr>signature = ''8BPS'', version = 1, channelsNum = 3, height = 10, width = 10,
             depth = 8, colorMode = (9, ''Lab Color'')\<rparr>, \<lparr>unread = [], tell = 26\<rparr>)
   \<and> PSDHeader_parse (file_of (header_bytes ''8BPS'' 1 (replicate 6 (CHR 0x00)) 3 10 10 8 5))
     = Inl (KeyError (PyInt 5))
   \<and> PSDHeader_parse (file_of (header_bytes ''8BPS'' 1 (replicate 6 (CHR 0x00)) 3 10 10 8 6))
     = Inl (KeyError (PyInt 6))
   \<and> PSDHeader_parse (file_of (header_bytes ''8BPS'' 1 (replicate 6 (CHR 0x00)) 3 10 10 8 10))
     = Inl (KeyError (PyInt 10))"
  using header_color_mode_labels [of "replicate 6 (CHR 0x00)" 3 10 10 8 9 "[]" 0]
    header_color_mode_labels [of "replicate 6 (CHR 0x00)" 3 10 10 8 5 "[]" 0]
    header_color_mode_labels [of "replicate 6 (CHR 0x00)" 3 10 10 8 6 "[]" 0]
    header_color_mode_labels [of "replicate 6 (CHR 0x00)" 3 10 10 8 10 "[]" 0]
  by (simp add: file_of_def)

section \<open>Color mode data and image resources: length accounting\<close>

text \<open>
  Claim C8. For every declared length \<open>n\<close>, zero included, decoding a Color Mode
  Data section or an Image Resources section whose \<open>n\<close> payload bytes are present
  succeeds, records \<open>n\<close> and leaves the cursor at its position before the call plus
  4 plus \<open>n\<close>.
\<close>

theorem section_length_accounting:
  assumes "0 \<le> n" "n < 4294967296" "length payload = nat n"
  shows "PSDColorMode_parse \<lparr>unread = be32 n @ payload @ rest, tell = t\<rparr>
           = Inr (\<lparr>cm_length = n, cm_code = n\<rparr>, \<lparr>unread = rest, tell = t + 4 + nat n\<rparr>)
       \<and> PSDImageResources_parse \<lparr>unread = be32 n @ payload @ rest, tell = t\<rparr>
           = Inr (\<lparr>ir_length = n\<rparr>, \<lparr>unread = rest, tell = t + 4 + nat n\<rparr>)"
  using assms
  by (simp add: PSDColorMode_parse_def PSDImageResources_parse_def updateLength_def
      readInt_be32 skip_append)

theorem section_length_accounting_witness:
  "PSDColorMode_parse \<lparr>unread = be32 0 @ ''rest'', tell = 26\<rparr>
       = Inr (\<lparr>cm_length = 0, cm_code = 0\<rparr>, \<lparr>unread = ''rest'', tell = 30\<rparr>)
   \<and> PSDImageResources_parse \<lparr>unread = be32 0 @ ''rest'', tell = 26\<rparr>
       = Inr (\<lparr>ir_length = 0\<rparr>, \<lparr>unread = ''rest'', tell = 30\<rparr>)
   \<and> PSDColorMode_parse \<lparr>unread = be32 3 @ ''abc'' @ ''rest'', tell = 26\<rparr>
       = Inr (\<lparr>cm_length = 3, cm_code = 3\<rparr>, \<lparr>unread = ''rest'', tell = 33\<rparr>)
   \<and> PSDImageResources_parse \<lparr>unread = be32 3 @ ''abc'' @ ''rest'', tell = 26\<rparr>
       = Inr (\<lparr>ir_length = 3\<rparr>, \<lparr>unread = ''rest'', tell = 33\<rparr>)"
  using section_length_accounting [of 0 "[]" "''rest''" 26]
    section_length_accounting [of 3 "''abc''" "''rest''" 26]
  by simp

section \<open>Layer records: the blend-mode key\<close>

text \<open>
  Claim C7. A layer record whose four-byte blend-mode key is not a key of the blend
  table cannot be decoded: with the blend signature in place, \<^verbatim>\<open>PSDLayer.parse\<close>
  fails at \<^verbatim>\<open>blendMap[blendCode]\<close> with a \<^verbatim>\<open>KeyError\<close> for that key (and with the
  assertion error before it when the signature is wrong). The key is neither passed
  through nor replaced by a default name.
\<close>

theorem layer_unknown_blend_key_fails:
  assumes "- 2147483648 \<le> a" "a < 2147483648" "- 2147483648 \<le> b" "b < 2147483648"
      "- 2147483648 \<le> c" "c < 2147483648" "- 2147483648 \<le> d" "d < 2147483648"
    and "list_all channel_ok chans" "length chans < 32768"
    and "length sig = 4" "length key = 4"
    and "0 \<le> opa" "opa < 256" "0 \<le> clip" "clip < 256"
    and "key \<notin> dom blendMap"
  shows "PSDLayer_parse
           \<lparr>unread = layer_bytes (a, b, c, d) chans sig key opa clip flags @ rest, tell = t\<rparr>
         = (if sig = ''8BIM'' then Inl (KeyError (PyStr key)) else Inl AssertionError)"
proof -
  from assms(17) have "blendMap key = None"
    by (simp add: domIff)
  with PSDLayer_parse_bytes [OF assms(1-16), of flags rest t] show ?thesis
    by (simp add: SIGNATIRE_8BIM_def)
qed

theorem layer_unknown_blend_key_fails_witness:
  "PSDLayer_parse
     (file_of (layer_bytes (0, 0, 10, 10) [(0, 100)] ''8BIM'' ''xxxx'' 255 0 (CHR 0x00)))
     = Inl (KeyError (PyStr ''xxxx''))
   \<and> PSDLayer_parse
     (file_of (layer_bytes (0, 0, 10, 10) [(0, 100)] ''8BIM'' ''hue '' 255 0 (CHR 0x00)))
     = Inl (KeyError (PyStr ''hue ''))"
  using layer_unknown_blend_key_fails
      [of 0 0 10 10 "[(0, 100)]" "''8BIM''" "''xxxx''" 255 0 "CHR 0x00" "[]" 0]
    layer_unknown_blend_key_fails
      [of 0 0 10 10 "[(0, 100)]" "''8BIM''" "''hue ''" 255 0 "CHR 0x00" "[]" 0]
  by (simp add: file_of_def blendMap_def dom_def)

section \<open>Layer records: a repeated channel id\<close>

text \<open>
  Claim C1 asks that two channel entries with the same id give that id the list of
  both lengths. The channel loop does not do that: at the second entry the id is in
  the dictionary with a plain length, and the loop stores the one-element list of
  the old length; the new length is appended nowhere. A layer whose two channel
  entries are (0, 100) and (0, 200) decodes with \<^verbatim>\<open>channels == {0: [100]}\<close>, and
  a third entry (0, 300) gives \<^verbatim>\<open>{0: [100, 300]}\<close>.
\<close>

theorem layer_repeated_channel_id_loses_length:
  "PSDLayer_parse
     (file_of (layer_bytes (0, 0, 10, 10) [(0, 100), (0, 200)] ''8BIM'' ''norm'' 255 0 (CHR 0x00)))
     = Inr (\<lparr>rectangle = (0, 0, 10, 10), chanelsCount = 2,
             channels = [0 \<mapsto> Lengths [100]],
             blend = (''norm'', ''normal''), opacity = 255, clipping = (0, ''base''),
             transpProtected = False, visible = False\<rparr>,
            \<lparr>unread = [], tell = 41\<rparr>)
   \<and> PSDLayer_parse
     (file_of (layer_bytes (0, 0, 10, 10) [(0, 100), (0, 200), (0, 300)]
        ''8BIM'' ''norm'' 255 0 (CHR 0x00)))
     = Inr (\<lparr>rectangle = (0, 0, 10, 10), chanelsCount = 3,
             channels = [0 \<mapsto> Lengths [100, 300]],
             blend = (''norm'', ''normal''), opacity = 255, clipping = (0, ''base''),
             transpProtected = False, visible = False\<rparr>,
            \<lparr>unread = [], tell = 47\<rparr>)"
  using layer_decode_example [of "[(0, 100), (0, 200)]" "CHR 0x00" "[]" 0]
    layer_decode_example [of "[(0, 100), (0, 200), (0, 300)]" "CHR 0x00" "[]" 0]
  by (simp add: file_of_def add_channel_def bits_of_byte_examples)

section \<open>Layer records: the flags byte\<close>

text \<open>
  Claim C2 asks that the transparency-protected flag is bit 0, the least significant
  bit of the flags byte, and the visible flag bit 1. The fields are the elements 0
  and 1 of the list \<^verbatim>\<open>readBits(1)\<close> returns, which starts at the most significant
  bit: they are bits 7 and 6 of the byte. With the flags byte 0x01 the layer decodes
  as not transparency-protected, with 0x02 as not visible, and with 0x80 as
  transparency-protected.
\<close>

theorem layer_flags_read_from_top_bits:
  "PSDLayer_parse
     (file_of (layer_bytes (0, 0, 10, 10) [] ''8BIM'' ''norm'' 255 0 (CHR 0x01)))
     = Inr (\<lparr>rectangle = (0, 0, 10, 10), chanelsCount = 0, channels = Map.empty,
             blend = (''norm'', ''normal''), opacity = 255, clipping = (0, ''base''),
             transpProtected = False, visible = False\<rparr>,
            \<lparr>unread = [], tell = 29\<rparr>)
   \<and> PSDLayer_parse
     (file_of (layer_bytes (0, 0, 10, 10) [] ''8BIM'' ''norm'' 255 0 (CHR 0x02)))
     = Inr (\<lparr>rectangle = (0, 0, 10, 10), chanelsCount = 0, channels = Map.empty,
             blend = (''norm'', ''normal''), opacity = 255, clipping = (0, ''base''),
             transpProtected = False, visible = False\<rparr>,
            \<lparr>unread = [], tell = 29\<rparr>)
   \<and> PSDLayer_parse
     (file_of (layer_bytes (0, 0, 10, 10) [] ''8BIM'' ''norm'' 255 0 (CHR 0x80)))
     = Inr (\<lparr>rectangle = (0, 0, 10, 10), chanelsCount = 0, channels = Map.empty,
             blend = (''norm'', ''normal''), opacity = 255, clipping = (0, ''base''),
             transpProtected = True, visible = False\<rparr>,
            \<lparr>unread = [], tell = 29\<rparr>)"
  using layer_decode_example [of "[]" "CHR 0x01" "[]" 0]
    layer_decode_example [of "[]" "CHR 0x02" "[]" 0]
    layer_decode_example [of "[]" "CHR 0x80" "[]" 0]
  by (simp add: file_of_def bits_of_byte_examples)

section \<open>The layer and mask section: a negative layer count\<close>

text \<open>
  Claim C6. Let the signed 16-bit layer count \<open>n\<close> of a layer and mask section be
  negative. When the count is followed by \<open>- n\<close> well-formed layer records and the
  mask data, the section decodes: it holds the count \<open>- n\<close> and exactly \<open>- n\<close> layers,
  the i-th being the record that \<^verbatim>\<open>PSDLayer.parse\<close> decodes from the bytes of the
  i-th layer record, and the cursor stands after the mask data. The sign leaves no
  trace: whatever bytes follow, the section decodes as it does with the count
  \<open>- n\<close> in the field (for \<open>n\<close> above -32768, whose opposite fits the field), the
  same error or the same section and cursor. Whenever the section decodes, it holds
  the count \<open>- n\<close>, \<open>- n\<close> layers and the two declared lengths.
\<close>

theorem layermask_negative_count:
  assumes "0 \<le> len" "len < 4294967296" "0 \<le> info" "info < 4294967296"
    and "- 32768 \<le> n" "n < 0"
  shows
    "(list_all layer_fields_ok specs \<and> int (length specs) = - n
        \<and> 0 \<le> mlen \<and> mlen < 4294967296 \<and> length maskdata = nat mlen \<longrightarrow>
      (\<exists>ls. PSDLayerMask_parse
               \<lparr>unread = be32 len @ be32 info @ be16 n
                  @ concat (map layer_fields_bytes specs) @ be32 mlen @ maskdata @ rest,
                tell = t\<rparr>
             = Inr (\<lparr>lm_length = len, layerInfoLength = info, layersCount = - n,
                     masklength = mlen, layers = ls\<rparr>,
                    \<lparr>unread = rest,
                     tell = t + 14 + length (concat (map layer_fields_bytes specs))
                            + nat mlen\<rparr>)
           \<and> map Some ls = map (\<lambda>s. decode_alone (layer_fields_bytes s)) specs))
     \<and> (- 32768 < n \<longrightarrow>
          PSDLayerMask_parse \<lparr>unread = be32 len @ be32 info @ be16 n @ body, tell = t\<rparr>
            = PSDLayerMask_parse
                \<lparr>unread = be32 len @ be32 info @ be16 (- n) @ body, tell = t\<rparr>)
     \<and> (PSDLayerMask_parse \<lparr>unread = be32 len @ be32 info @ be16 n @ body, tell = t\<rparr>
            = Inr (r, f') \<longrightarrow>
          layersCount r = - n \<and> length (layers r) = nat (- n)
          \<and> lm_length r = len \<and> layerInfoLength r = info)"
proof (intro conjI impI)
  from assms(5,6) have n: "n < 32768" by simp
  {
    assume a: "list_all layer_fields_ok specs \<and> int (length specs) = - n
        \<and> 0 \<le> mlen \<and> mlen < 4294967296 \<and> length maskdata = nat mlen"
    then have "int (length specs) = - n" by simp
    then have cnt: "nat (- n) = length specs" by (metis nat_int)
    from a read_layers_fields [of specs] obtain ls where
      ls: "map Some ls = map (\<lambda>s. decode_alone (layer_fields_bytes s)) specs"
      and run: "\<And>rest t acc.
        read_layers (length specs)
            \<lparr>unread = concat (map layer_fields_bytes specs) @ rest, tell = t\<rparr> acc
          = Inr (acc @ ls,
                 \<lparr>unread = rest, tell = t + length (concat (map layer_fields_bytes specs))\<rparr>)"
      by blast
    have "PSDLayerMask_parse
               \<lparr>unread = be32 len @ be32 info @ be16 n
                  @ concat (map layer_fields_bytes specs) @ be32 mlen @ maskdata @ rest,
                tell = t\<rparr>
             = Inr (\<lparr>lm_length = len, layerInfoLength = info, layersCount = - n,
                     masklength = mlen, layers = ls\<rparr>,
                    \<lparr>unread = rest,
                     tell = t + 14 + length (concat (map layer_fields_bytes specs))
                            + nat mlen\<rparr>)"
      using assms n a
      by (simp add: PSDLayerMask_parse_def updateLength_def readInt_be32 readShortInt_be16
          cnt run skip_append)
    with ls show "\<exists>ls. PSDLayerMask_parse
               \<lparr>unread = be32 len @ be32 info @ be16 n
                  @ concat (map layer_fields_bytes specs) @ be32 mlen @ maskdata @ rest,
                tell = t\<rparr>
             = Inr (\<lparr>lm_length = len, layerInfoLength = info, layersCount = - n,
                     masklength = mlen, layers = ls\<rparr>,
                    \<lparr>unread = rest,
                     tell = t + 14 + length (concat (map layer_fields_bytes specs))
                            + nat mlen\<rparr>)
           \<and> map Some ls = map (\<lambda>s. decode_alone (layer_fields_bytes s)) specs"
      by blast
  }
  {
    assume "- 32768 < n"
    with assms n
    show "PSDLayerMask_parse \<lparr>unread = be32 len @ be32 info @ be16 n @ body, tell = t\<rparr>
            = PSDLayerMask_parse
                \<lparr>unread = be32 len @ be32 info @ be16 (- n) @ body, tell = t\<rparr>"
      by (simp add: PSDLayerMask_parse_def updateLength_def readInt_be32 readShortInt_be16)
  }
  {
    assume p: "PSDLayerMask_parse \<lparr>unread = be32 len @ be32 info @ be16 n @ body, tell = t\<rparr>
            = Inr (r, f')"
    from p obtain ls f4 mlen' where
      loop: "read_layers (nat (- n)) \<lparr>unread = body, tell = t + 4 + 4 + 2\<rparr> [] = Inr (ls, f4)"
      and r: "r = \<lparr>lm_length = len, layerInfoLength = info, layersCount = - n,
                   masklength = mlen', layers = ls\<rparr>"
      using assms n
      by (auto simp add: PSDLayerMask_parse_def updateLength_def readInt_be32
          readShortInt_be16 and_then_def split: sum.splits prod.splits)
    from read_layers_length [OF loop] r
    show "layersCount r = - n" "length (layers r) = nat (- n)" "lm_length r = len"
      "layerInfoLength r = info"
      by simp_all
  }
qed

theorem layermask_negative_count_witness:
  "PSDLayerMask_parse
     (file_of (be32 117 @ be32 0 @ be16 (- 3)
        @ layer_bytes (0, 0, 10, 10) [(0, 100)] ''8BIM'' ''norm'' 255 0 (CHR 0x00)
        @ layer_bytes (- 5, - 5, 20, 20) [] ''8BIM'' ''dark'' 128 1 (CHR 0x80)
        @ layer_bytes (1, 2, 3, 4) [(- 1, 7), (0, 9)] ''8BIM'' ''diff'' 0 0 (CHR 0x00)
        @ be32 2 @ ''mk''))
   = Inr (\<lparr>lm_length = 117, layerInfoLength = 0, layersCount = 3, masklength = 2,
           layers =
             [\<lparr>rectangle = (0, 0, 10, 10), chanelsCount = 1, channels = [0 \<mapsto> Length 100],
               blend = (''norm'', ''normal''), opacity = 255, clipping = (0, ''base''),
               transpProtected = False, visible = False\<rparr>,
              \<lparr>rectangle = (- 5, - 5, 20, 20), chanelsCount = 0, channels = Map.empty,
               blend = (''dark'', ''darken''), opacity = 128, clipping = (1, ''non-base''),
               transpProtected = True, visible = False\<rparr>,
              \<lparr>rectangle = (1, 2, 3, 4), chanelsCount = 2,
               channels = [- 1 \<mapsto> Length 7, 0 \<mapsto> Length 9],
               blend = (''diff'', ''difference''), opacity = 0, clipping = (0, ''base''),
               transpProtected = False, visible = False\<rparr>]\<rparr>,
          \<lparr>unread = [], tell = 121\<rparr>)
   \<and> PSDLayerMask_parse
     (file_of (be32 117 @ be32 0 @ be16 (- 3)
        @ layer_bytes (0, 0, 10, 10) [(0, 100)] ''8BIM'' ''norm'' 255 0 (CHR 0x00)
        @ layer_bytes (- 5, - 5, 20, 20) [] ''8BIM'' ''dark'' 128 1 (CHR 0x80)
        @ layer_bytes (1, 2, 3, 4) [(- 1, 7), (0, 9)] ''8BIM'' ''diff'' 0 0 (CHR 0x00)
        @ be32 2 @ ''mk''))
   = PSDLayerMask_parse
     (file_of (be32 117 @ be32 0 @ be16 3
        @ layer_bytes (0, 0, 10, 10) [(0, 100)] ''8BIM'' ''norm'' 255 0 (CHR 0x00)
        @ layer_bytes (- 5, - 5, 20, 20) [] ''8BIM'' ''dark'' 128 1 (CHR 0x80)
        @ layer_bytes (1, 2, 3, 4) [(- 1, 7), (0, 9)] ''8BIM'' ''diff'' 0 0 (CHR 0x00)
        @ be32 2 @ ''mk''))"
proof -
  let ?s1 = "\<lparr>fl_rect = (0, 0, 10, 10), fl_chans = [(0, 100)], fl_key = ''norm'',
      fl_opacity = 255, fl_clip = 0, fl_flags = CHR 0x00\<rparr>"
  let ?s2 = "\<lparr>fl_rect = (- 5, - 5, 20, 20), fl_chans = [], fl_key = ''dark'',
      fl_opacity = 128, fl_clip = 1, fl_flags = CHR 0x80\<rparr>"
  let ?s3 = "\<lparr>fl_rect = (1, 2, 3, 4), fl_chans = [(- 1, 7), (0, 9)], fl_key = ''diff'',
      fl_opacity = 0, fl_clip = 0, fl_flags = CHR 0x00\<rparr>"
  let ?l1 = "\<lparr>rectangle = (0, 0, 10, 10), chanelsCount = 1, channels = [0 \<mapsto> Length 100],
      blend = (''norm'', ''normal''), opacity = 255, clipping = (0, ''base''),
      transpProtected = False, visible = False\<rparr>"
  let ?l2 = "\<lparr>rectangle = (- 5, - 5, 20, 20), chanelsCount = 0, channels = Map.empty,
      blend = (''dark'', ''darken''), opacity = 128, clipping = (1, ''non-base''),
      transpProtected = True, visible = False\<rparr>"
  let ?l3 = "\<lparr>rectangle = (1, 2, 3, 4), chanelsCount = 2,
      channels = [- 1 \<mapsto> Length 7, 0 \<mapsto> Length 9],
      blend = (''diff'', ''difference''), opacity = 0, clipping = (0, ''base''),
      transpProtected = False, visible = False\<rparr>"
  have d1: "decode_alone (layer_fields_bytes ?s1) = Some ?l1"
    using PSDLayer_parse_bytes
      [of 0 0 10 10 "[(0, 100)]" "''8BIM''" "''norm''" 255 0 "CHR 0x00" "[]" 0]
    by (simp add: decode_alone_def file_of_def layer_fields_bytes_def SIGNATIRE_8BIM_def
        blendMap_def clippingMap_def add_channel_def bits_of_byte_examples)
  have d2: "decode_alone (layer_fields_bytes ?s2) = Some ?l2"
    using PSDLayer_parse_bytes
      [of "- 5" "- 5" 20 20 "[]" "''8BIM''" "''dark''" 128 1 "CHR 0x80" "[]" 0]
    by (simp add: decode_alone_def file_of_def layer_fields_bytes_def SIGNATIRE_8BIM_def
        blendMap_def clippingMap_def add_channel_def bits_of_byte_examples)
  have d3: "decode_alone (layer_fields_bytes ?s3) = Some ?l3"
    using PSDLayer_parse_bytes
      [of 1 2 3 4 "[(- 1, 7), (0, 9)]" "''8BIM''" "''diff''" 0 0 "CHR 0x00" "[]" 0]
    by (simp add: decode_alone_def file_of_def layer_fields_bytes_def SIGNATIRE_8BIM_def
        blendMap_def clippingMap_def add_channel_def bits_of_byte_examples)
  have ok: "list_all layer_fields_ok [?s1, ?s2, ?s3]"
    by (simp add: layer_fields_ok_def in_int32_def blendMap_def clippingMap_def dom_def)
  have lens: "length (layer_fields_bytes ?s1) = 35" "length (layer_fields_bytes ?s2) = 29"
    "length (layer_fields_bytes ?s3) = 41"
    by (simp_all add: layer_fields_bytes_def length_layer_bytes)
  have p: "(0::int) \<le> 117" "(117::int) < 4294967296" "(0::int) \<le> 0" "(0::int) < 4294967296"
    "- 32768 \<le> (- 3::int)" "(- 3::int) < 0"
    by simp_all
  note inst = layermask_negative_count
    [OF p, of "[?s1, ?s2, ?s3]" 2 "''mk''" "[]" 0
      "layer_fields_bytes ?s1 @ layer_fields_bytes ?s2 @ layer_fields_bytes ?s3
         @ be32 2 @ ''mk''"]
  have premA: "list_all layer_fields_ok [?s1, ?s2, ?s3] \<and> int (length [?s1, ?s2, ?s3]) = - (- 3)
      \<and> (0::int) \<le> 2 \<and> (2::int) < 4294967296 \<and> length ''mk'' = nat 2"
    using ok by simp
  from inst [THEN conjunct1, THEN mp, OF premA] obtain ls where
    run: "PSDLayerMask_parse
            \<lparr>unread = be32 117 @ be32 0 @ be16 (- 3)
               @ layer_fields_bytes ?s1 @ layer_fields_bytes ?s2 @ layer_fields_bytes ?s3
               @ be32 2 @ ''mk'', tell = 0\<rparr>
          = Inr (\<lparr>lm_length = 117, layerInfoLength = 0, layersCount = 3, masklength = 2,
                  layers = ls\<rparr>, \<lparr>unread = [], tell = 121\<rparr>)"
    and dec: "map Some ls = map Some [?l1, ?l2, ?l3]"
    by (auto simp add: d1 d2 d3 lens)
  from dec have ls: "ls = [?l1, ?l2, ?l3]"
    by (simp only: inj_map_eq_map [OF inj_Some])
  have "- 32768 < (- 3::int)" by simp
  from inst [THEN conjunct2, THEN conjunct1, THEN mp, OF this]
  have sign: "PSDLayerMask_parse
            \<lparr>unread = be32 117 @ be32 0 @ be16 3
               @ layer_fields_bytes ?s1 @ layer_fields_bytes ?s2 @ layer_fields_bytes ?s3
               @ be32 2 @ ''mk'', tell = 0\<rparr>
          = Inr (\<lparr>lm_length = 117, layerInfoLength = 0, layersCount = 3, masklength = 2,
                  layers = ls\<rparr>, \<lparr>unread = [], tell = 121\<rparr>)"
    using run by simp
  from run sign show ?thesis
    unfolding ls by (simp add: file_of_def layer_fields_bytes_def)
qed

section \<open>The layer and mask section: the declared total length\<close>

text \<open>
  Claim C3 asks for an error when the declared total length of the layer and mask
  section differs from the bytes the decoder consumed. A section that declares 1000
  bytes and holds 10 (no layers, no mask data) decodes without any error.
\<close>

theorem layermask_declared_length_mismatch_accepted:
  "PSDLayerMask_parse (file_of (be32 1000 @ be32 0 @ be16 0 @ be32 0))
     = Inr (\<lparr>lm_length = 1000, layerInfoLength = 0, layersCount = 0, masklength = 0,
             layers = []\<rparr>, \<lparr>unread = [], tell = 14\<rparr>)
   \<and> (1000::int) \<noteq> 14 - 4"
  by (simp add: PSDLayerMask_parse_def file_of_def updateLength_def readInt_be32
      readInt_be32_end readShortInt_be16 skip_def read_exact_def)

text \<open>
  Claim C3, as amended. \<^verbatim>\<open>PSDLayerMask.parse\<close> stores the declared total length and
  never compares it with the bytes consumed: the same bytes after the length field
  decode to the same error, or to the same section and final cursor, whatever length
  the field declares.
\<close>

theorem layermask_declared_length_ignored:
  assumes "0 \<le> n" "n < 4294967296" "0 \<le> m" "m < 4294967296"
  shows "PSDLayerMask_parse \<lparr>unread = be32 n @ body, tell = t\<rparr> =
     (case PSDLayerMask_parse \<lparr>unread = be32 m @ body, tell = t\<rparr> of
        Inl e \<Rightarrow> Inl e
      | Inr (r, f') \<Rightarrow> Inr (r\<lparr>lm_length := n\<rparr>, f'))"
  using assms
  by (simp add: PSDLayerMask_parse_def updateLength_def readInt_be32 and_then_def
      split: sum.splits prod.splits)

theorem layermask_declared_length_ignored_witness:
  "PSDLayerMask_parse (file_of (be32 10 @ be32 0 @ be16 0 @ be32 0))
     = Inr (\<lparr>lm_length = 10, layerInfoLength = 0, layersCount = 0, masklength = 0,
             layers = []\<rparr>, \<lparr>unread = [], tell = 14\<rparr>)"
proof -
  have "PSDLayerMask_parse \<lparr>unread = be32 1000 @ be32 0 @ be16 0 @ be32 0, tell = 0\<rparr>
     = Inr (\<lparr>lm_length = 1000, layerInfoLength = 0, layersCount = 0, masklength = 0,
             layers = []\<rparr>, \<lparr>unread = [], tell = 14\<rparr>)"
    by (simp add: PSDLayerMask_parse_def updateLength_def readInt_be32
      readInt_be32_end readShortInt_be16 skip_def read_exact_def)
  with layermask_declared_length_ignored [of 10 1000 "be32 0 @ be16 0 @ be32 0" 0]
  show ?thesis
    by (simp add: file_of_def)
qed

end
